theory Spec2Isabelle
  imports Complex_Main
begin

section \<open>The drawing modal of the XML form renderer\<close>

text \<open>
  The component \<^verbatim>\<open>DrawingModal\<close> keeps two state cells, \<^verbatim>\<open>paths\<close> and
  \<^verbatim>\<open>currentPath\<close>, a ref to the canvas, and a ref to the pan responder whose handlers
  record the touch gesture. An effect repaints the canvas whenever one of the two cells
  changes. The development below embeds the handlers, the effect and the two button
  actions as functions on an explicit component state.
\<close>

subsection \<open>Data model\<close>

text \<open>
  JavaScript numbers are used as coordinates and as the line width only; the component
  stores and forwards them and never computes with them, so they are reals here.
  A point is the object \<^verbatim>\<open>{ x: locationX, y: locationY }\<close>.
\<close>

datatype point = Point (pt_x: real) (pt_y: real)

text \<open>A path object \<^verbatim>\<open>{ points, color, width }\<close>.\<close>

record stroke =
  points :: "point list"
  color :: string
  width :: real

subsection \<open>The canvas and its 2D context\<close>

text \<open>
  The canvas API belongs to the platform. Its state is modelled by the fields the
  component writes: the style attributes of the context, the current path of the context,
  and the surface. The surface is kept as the paint applied, bottom to top, since the last
  opaque fill that covered the whole canvas: such a fill hides whatever was below it, so
  two surfaces with equal paint lists show the same pixels. The empty list is a canvas on
  which nothing has been painted yet: its pixels are transparent, unlike those of a canvas
  filled with the background colour. Style values are stored as given (the data model has a
  colour value and a positive width in every stroke).
\<close>

datatype path_cmd = MoveTo real real | LineTo real real

datatype paint =
    FillRect string real real real real
  | StrokePath string real string string "path_cmd list"

record canvas =
  cv_width :: real
  cv_height :: real
  fillStyle :: string
  strokeStyle :: string
  lineWidth :: real
  lineCap :: string
  lineJoin :: string
  subpath :: "path_cmd list"
  pixels :: "paint list"

text \<open>A canvas as the platform hands it out: default context attributes, nothing painted.\<close>

definition fresh_canvas :: "real \<Rightarrow> real \<Rightarrow> canvas" where
  "fresh_canvas w h =
     \<lparr>cv_width = w, cv_height = h, fillStyle = ''#000000'', strokeStyle = ''#000000'',
      lineWidth = 1, lineCap = ''butt'', lineJoin = ''miter'', subpath = [], pixels = []\<rparr>"

definition opaque_color :: "string \<Rightarrow> bool" where
  "opaque_color c = (c = ''white'' \<or> c = ''black'')"

definition covers_canvas :: "real \<Rightarrow> real \<Rightarrow> real \<Rightarrow> real \<Rightarrow> canvas \<Rightarrow> bool" where
  "covers_canvas x0 y0 w h ctx =
     (x0 \<le> 0 \<and> y0 \<le> 0 \<and> cv_width ctx \<le> x0 + w \<and> cv_height ctx \<le> y0 + h)"

definition fillRect :: "real \<Rightarrow> real \<Rightarrow> real \<Rightarrow> real \<Rightarrow> canvas \<Rightarrow> canvas" where
  "fillRect x0 y0 w h ctx =
     ctx\<lparr>pixels :=
       (if covers_canvas x0 y0 w h ctx \<and> opaque_color (fillStyle ctx) then [] else pixels ctx)
       @ [FillRect (fillStyle ctx) x0 y0 w h]\<rparr>"

definition beginPath :: "canvas \<Rightarrow> canvas" where
  "beginPath ctx = ctx\<lparr>subpath := []\<rparr>"

definition moveTo :: "real \<Rightarrow> real \<Rightarrow> canvas \<Rightarrow> canvas" where
  "moveTo px py ctx = ctx\<lparr>subpath := subpath ctx @ [MoveTo px py]\<rparr>"

definition lineTo :: "real \<Rightarrow> real \<Rightarrow> canvas \<Rightarrow> canvas" where
  "lineTo px py ctx = ctx\<lparr>subpath := subpath ctx @ [LineTo px py]\<rparr>"

definition stroke_ctx :: "canvas \<Rightarrow> canvas" where
  "stroke_ctx ctx =
     ctx\<lparr>pixels := pixels ctx @
       [StrokePath (strokeStyle ctx) (lineWidth ctx) (lineCap ctx) (lineJoin ctx) (subpath ctx)]\<rparr>"

subsection \<open>The effect \<^verbatim>\<open>drawPaths\<close>\<close>

text \<open>\<^verbatim>\<open>Array.prototype.forEach\<close> with the callback's index argument.\<close>

fun forEach_index :: "('a \<Rightarrow> nat \<Rightarrow> 's \<Rightarrow> 's) \<Rightarrow> 'a list \<Rightarrow> nat \<Rightarrow> 's \<Rightarrow> 's" where
  "forEach_index f [] i s = s"
| "forEach_index f (a # as) i s = forEach_index f as (Suc i) (f a i s)"

definition forEach :: "('a \<Rightarrow> nat \<Rightarrow> 's \<Rightarrow> 's) \<Rightarrow> 'a list \<Rightarrow> 's \<Rightarrow> 's" where
  "forEach f as s = forEach_index f as 0 s"

text \<open>The callback of \<^verbatim>\<open>path.points.forEach\<close>.\<close>

definition draw_point :: "point \<Rightarrow> nat \<Rightarrow> canvas \<Rightarrow> canvas" where
  "draw_point p index ctx =
     (if index = 0 then moveTo (pt_x p) (pt_y p) ctx else lineTo (pt_x p) (pt_y p) ctx)"

text \<open>
  The body of \<^verbatim>\<open>paths.forEach(path => ...)\<close>; the block for \<^verbatim>\<open>currentPath\<close> repeats
  it statement by statement.
\<close>

definition draw_path :: "stroke \<Rightarrow> canvas \<Rightarrow> canvas" where
  "draw_path path ctx =
     (let ctx = beginPath ctx;
          ctx = ctx\<lparr>strokeStyle := color path\<rparr>;
          ctx = ctx\<lparr>lineWidth := width path\<rparr>;
          ctx = ctx\<lparr>lineCap := ''round''\<rparr>;
          ctx = ctx\<lparr>lineJoin := ''round''\<rparr>;
          ctx = forEach draw_point (points path) ctx
      in stroke_ctx ctx)"

definition draw_on :: "stroke list \<Rightarrow> stroke option \<Rightarrow> canvas \<Rightarrow> canvas" where
  "draw_on pths cur canvas =
     (let ctx = canvas\<lparr>fillStyle := ''white''\<rparr>;
          ctx = fillRect 0 0 (cv_width canvas) (cv_height canvas) ctx;
          ctx = forEach (\<lambda>path index. draw_path path) pths ctx
      in case cur of None \<Rightarrow> ctx | Some cp \<Rightarrow> draw_path cp ctx)"

text \<open>\<^verbatim>\<open>drawPaths\<close>: nothing happens while \<^verbatim>\<open>canvasRef.current\<close> is null.\<close>

definition drawPaths :: "stroke list \<Rightarrow> stroke option \<Rightarrow> canvas option \<Rightarrow> canvas option" where
  "drawPaths pths cur canvasRef_current =
     (case canvasRef_current of
        None \<Rightarrow> None
      | Some canvas \<Rightarrow> Some (draw_on pths cur canvas))"

subsection \<open>Component state, refs and rendering\<close>

text \<open>
  The handlers passed to \<^verbatim>\<open>PanResponder.create\<close> are closures made by one run of the
  component body. The setters they call are stable; the one binding they read that differs
  between renders is the constant \<^verbatim>\<open>currentPath\<close> of the render that made them. A pan
  responder is therefore represented by that captured value.
\<close>

record pan_responder =
  captured_currentPath :: "stroke option"

definition PanResponder_create :: "stroke option \<Rightarrow> pan_responder" where
  "PanResponder_create currentPath_of_render = \<lparr>captured_currentPath = currentPath_of_render\<rparr>"

text \<open>
  \<^verbatim>\<open>useRef(initialValue)\<close>: the first render stores the initial value in the ref; every
  later render evaluates the argument again and returns the ref unchanged.
\<close>

definition mountRef :: "'a \<Rightarrow> 'a" where
  "mountRef initialValue = initialValue"

definition updateRef :: "'a \<Rightarrow> 'a \<Rightarrow> 'a" where
  "updateRef held initialValue = held"

text \<open>What the host can observe of the component: the callbacks and the notifications.\<close>

datatype effect =
    OnSave string
  | OnClose
  | ConsoleError string
  | Alert string string

record modal =
  paths :: "stroke list"
  currentPath :: "stroke option"
  panResponder :: pan_responder
  canvasRef :: "canvas option"
  effects :: "effect list"

text \<open>The effect with dependencies \<^verbatim>\<open>[paths, currentPath]\<close>.\<close>

definition useEffect_drawPaths :: "modal \<Rightarrow> modal" where
  "useEffect_drawPaths m = m\<lparr>canvasRef := drawPaths (paths m) (currentPath m) (canvasRef m)\<rparr>"

text \<open>
  The first render: \<^verbatim>\<open>useState([])\<close>, \<^verbatim>\<open>useState(null)\<close>, the pan responder made from
  this render's bindings, then the effect. The argument is what \<^verbatim>\<open>canvasRef.current\<close>
  is attached to when the effect runs. The \<^verbatim>\<open>Canvas\<close> is a child of the \<^verbatim>\<open>Modal\<close>,
  which renders its children only while the \<^verbatim>\<open>visible\<close> prop is true: a component
  mounted hidden, as \<^verbatim>\<open>App.js\<close> mounts it (\<^verbatim>\<open>drawingModalVisible\<close> starts false), is
  \<open>mount None\<close>, and its first effect finds no canvas to paint.
\<close>

definition mount :: "canvas option \<Rightarrow> modal" where
  "mount cv =
     (let paths0 = []; currentPath0 = None
      in useEffect_drawPaths
           \<lparr>paths = paths0, currentPath = currentPath0,
            panResponder = mountRef (PanResponder_create currentPath0),
            canvasRef = cv, effects = []\<rparr>)"

text \<open>
  A render after a state change: the component body runs again with the new state, the ref
  keeps the pan responder it holds, and the effect runs because a dependency changed.
\<close>

definition rerender :: "modal \<Rightarrow> modal" where
  "rerender m =
     useEffect_drawPaths
       (m\<lparr>panResponder := updateRef (panResponder m) (PanResponder_create (currentPath m))\<rparr>)"

text \<open>
  A render caused by a change of the \<^verbatim>\<open>visible\<close> prop: the component body runs again,
  and \<^verbatim>\<open>canvasRef.current\<close> follows the \<^verbatim>\<open>Canvas\<close> as the \<^verbatim>\<open>Modal\<close> mounts or unmounts
  it. The effect does not run: its dependencies \<^verbatim>\<open>[paths, currentPath]\<close> are the same.
\<close>

definition rerender_visible :: "canvas option \<Rightarrow> modal \<Rightarrow> modal" where
  "rerender_visible cv m =
     m\<lparr>panResponder := updateRef (panResponder m) (PanResponder_create (currentPath m)),
       canvasRef := cv\<rparr>"

subsection \<open>Gesture handlers\<close>

datatype error = TypeError

definition onPanResponderGrant :: "real \<Rightarrow> real \<Rightarrow> modal \<Rightarrow> modal" where
  "onPanResponderGrant locationX locationY m =
     m\<lparr>currentPath := Some \<lparr>points = [Point locationX locationY], color = ''black'', width = 2\<rparr>\<rparr>"

text \<open>
  The updater reads \<^verbatim>\<open>current.points\<close>; on \<^verbatim>\<open>null\<close> that read throws a TypeError.
\<close>

definition onPanResponderMove :: "real \<Rightarrow> real \<Rightarrow> modal \<Rightarrow> error + modal" where
  "onPanResponderMove locationX locationY m =
     (case currentPath m of
        None \<Rightarrow> Inl TypeError
      | Some current \<Rightarrow>
          Inr (m\<lparr>currentPath :=
                 Some (current\<lparr>points := points current @ [Point locationX locationY]\<rparr>)\<rparr>))"

text \<open>
  The release handler tests and appends the \<^verbatim>\<open>currentPath\<close> of its closure. The result
  says whether a setter was called.
\<close>

definition onPanResponderRelease :: "pan_responder \<Rightarrow> modal \<Rightarrow> bool \<times> modal" where
  "onPanResponderRelease pr m =
     (case captured_currentPath pr of
        Some cp \<Rightarrow> (True, m\<lparr>paths := paths m @ [cp], currentPath := None\<rparr>)
      | None \<Rightarrow> (False, m))"

subsection \<open>Buttons\<close>

definition clearCanvas :: "modal \<Rightarrow> modal" where
  "clearCanvas m = m\<lparr>paths := [], currentPath := None\<rparr>"

text \<open>
  The platform encoder and the two callback props are parameters: \<^verbatim>\<open>toDataURL\<close> yields
  \<open>None\<close> when it throws or its promise rejects, and a callback may return or throw.
\<close>

record host =
  toDataURL :: "canvas \<Rightarrow> string option"
  onSave_returns :: "string \<Rightarrow> bool"
  onClose_returns :: bool

definition catch_save :: "modal \<Rightarrow> modal" where
  "catch_save m =
     m\<lparr>effects := effects m @
        [ConsoleError ''Error saving drawing:'', Alert ''Error'' ''Could not save drawing'']\<rparr>"

definition saveDrawing :: "host \<Rightarrow> modal \<Rightarrow> modal" where
  "saveDrawing h m =
     (case canvasRef m of
        None \<Rightarrow> m
      | Some canvas \<Rightarrow>
          (case toDataURL h canvas of
             None \<Rightarrow> catch_save m
           | Some dataURL \<Rightarrow>
               (let m1 = m\<lparr>effects := effects m @ [OnSave dataURL]\<rparr>
                in if \<not> onSave_returns h dataURL then catch_save m1
                   else (let m2 = m1\<lparr>effects := effects m1 @ [OnClose]\<rparr>
                         in if \<not> onClose_returns h then catch_save m2 else m2))))"

subsection \<open>Events\<close>

text \<open>
  The responder system delivers grant, move, release and terminate; the two buttons deliver
  presses. The configuration has no \<^verbatim>\<open>onPanResponderTerminate\<close>, so a terminated
  gesture runs no code of the component. A handler that calls a setter is followed by a
  render. The host shows the modal (the platform then creates a canvas of the given width
  and height; nothing changes if the canvas is already there) and hides it.
\<close>

datatype event =
    GestureStart real real
  | GestureMove real real
  | GestureEnd
  | GestureCancel
  | PressClear
  | PressSave
  | Show real real
  | Hide

fun dispatch :: "host \<Rightarrow> event \<Rightarrow> modal \<Rightarrow> error + modal" where
  "dispatch h (GestureStart lx ly) m = Inr (rerender (onPanResponderGrant lx ly m))"
| "dispatch h (GestureMove lx ly) m =
     (case onPanResponderMove lx ly m of
        Inl e \<Rightarrow> Inl e
      | Inr m' \<Rightarrow> Inr (rerender m'))"
| "dispatch h GestureEnd m =
     (case onPanResponderRelease (panResponder m) m of
        (True, m') \<Rightarrow> Inr (rerender m')
      | (False, m') \<Rightarrow> Inr m')"
| "dispatch h GestureCancel m = Inr m"
| "dispatch h PressClear m = Inr (rerender (clearCanvas m))"
| "dispatch h PressSave m = Inr (saveDrawing h m)"
| "dispatch h (Show cw ch) m =
     (case canvasRef m of
        None \<Rightarrow> Inr (rerender_visible (Some (fresh_canvas cw ch)) m)
      | Some canvas \<Rightarrow> Inr m)"
| "dispatch h Hide m = Inr (rerender_visible None m)"

fun run :: "host \<Rightarrow> event list \<Rightarrow> modal \<Rightarrow> error + modal" where
  "run h [] m = Inr m"
| "run h (ev # evs) m =
     (case dispatch h ev m of
        Inl e \<Rightarrow> Inl e
      | Inr m' \<Rightarrow> run h evs m')"

text \<open>A host whose encoder and callbacks all work, and one whose encoder throws.\<close>

definition working_host :: host where
  "working_host =
     \<lparr>toDataURL = (\<lambda>canvas. Some ''data:image/png;base64,''),
      onSave_returns = (\<lambda>dataURL. True), onClose_returns = True\<rparr>"

definition encoder_throws_host :: host where
  "encoder_throws_host =
     \<lparr>toDataURL = (\<lambda>canvas. None),
      onSave_returns = (\<lambda>dataURL. True), onClose_returns = True\<rparr>"

subsection \<open>Observations\<close>

text \<open>The drawing state of an outcome: \<^verbatim>\<open>paths\<close> and \<^verbatim>\<open>currentPath\<close>.\<close>

definition drawing_of :: "error + modal \<Rightarrow> error + stroke list \<times> stroke option" where
  "drawing_of r = (case r of Inl e \<Rightarrow> Inl e | Inr m \<Rightarrow> Inr (paths m, currentPath m))"

text \<open>The surface of a component: the paint on its canvas, if the canvas is there.\<close>

definition surface :: "modal \<Rightarrow> paint list option" where
  "surface m = map_option pixels (canvasRef m)"

definition surface_of :: "error + modal \<Rightarrow> error + paint list option" where
  "surface_of r = (case r of Inl e \<Rightarrow> Inl e | Inr m \<Rightarrow> Inr (surface m))"

subsection \<open>The specification's vocabulary\<close>

text \<open>
  These definitions follow the words of the specification, to be compared with the code.
  A stroke is rendered as a connected polyline: move to the first point, straight segments
  to each subsequent point, in the stroke's colour and width with round caps and joins.
\<close>

fun spec_polyline :: "point list \<Rightarrow> path_cmd list" where
  "spec_polyline [] = []"
| "spec_polyline (p # ps) = MoveTo (pt_x p) (pt_y p) # map (\<lambda>q. LineTo (pt_x q) (pt_y q)) ps"

definition spec_stroke_paint :: "stroke \<Rightarrow> paint" where
  "spec_stroke_paint s =
     StrokePath (color s) (width s) ''round'' ''round'' (spec_polyline (points s))"

text \<open>
  Repaint: the background over the whole surface, then the committed strokes in insertion
  order, then the active stroke if there is one.
\<close>

definition spec_repaint :: "real \<Rightarrow> real \<Rightarrow> stroke list \<Rightarrow> stroke option \<Rightarrow> paint list" where
  "spec_repaint w h pths cur =
     FillRect ''white'' 0 0 w h # map spec_stroke_paint pths @
       (case cur of None \<Rightarrow> [] | Some cp \<Rightarrow> [spec_stroke_paint cp])"

definition all_strokes :: "stroke list \<Rightarrow> stroke option \<Rightarrow> stroke list" where
  "all_strokes pths cur = pths @ (case cur of None \<Rightarrow> [] | Some cp \<Rightarrow> [cp])"

text \<open>
  The event-ordering precondition: every gesture-move lies inside a gesture, after its
  gesture-start with no gesture-end, gesture-cancel or clear in between. The flag says
  whether a gesture is in progress.
\<close>

fun moves_inside_gestures :: "bool \<Rightarrow> event list \<Rightarrow> bool" where
  "moves_inside_gestures g [] = True"
| "moves_inside_gestures g (GestureStart lx ly # evs) = moves_inside_gestures True evs"
| "moves_inside_gestures g (GestureMove lx ly # evs) = (g \<and> moves_inside_gestures g evs)"
| "moves_inside_gestures g (GestureEnd # evs) = moves_inside_gestures False evs"
| "moves_inside_gestures g (GestureCancel # evs) = moves_inside_gestures False evs"
| "moves_inside_gestures g (PressClear # evs) = moves_inside_gestures False evs"
| "moves_inside_gestures g (ev # evs) = moves_inside_gestures g evs"

text \<open>
  Some gesture-move has no gesture-start before it since the beginning or the last clear.
  The flag says whether a gesture-start has been seen since then.
\<close>

fun move_without_start :: "bool \<Rightarrow> event list \<Rightarrow> bool" where
  "move_without_start st [] = False"
| "move_without_start st (GestureStart lx ly # evs) = move_without_start True evs"
| "move_without_start st (GestureMove lx ly # evs) =
     (if st then move_without_start st evs else True)"
| "move_without_start st (PressClear # evs) = move_without_start False evs"
| "move_without_start st (ev # evs) = move_without_start st evs"

text \<open>The fixed style, and the invariant that every stroke the component holds has it.\<close>

definition fixed_style :: "stroke \<Rightarrow> bool" where
  "fixed_style s = (color s = ''black'' \<and> width s = 2)"

definition style_inv :: "modal \<Rightarrow> bool" where
  "style_inv m =
     (list_all fixed_style (paths m) \<and>
      (case currentPath m of None \<Rightarrow> True | Some s \<Rightarrow> fixed_style s) \<and>
      (case captured_currentPath (panResponder m) of None \<Rightarrow> True | Some s \<Rightarrow> fixed_style s))"

section \<open>Properties\<close>

subsection \<open>Rendering and refs\<close>

lemma mount_fields:
  "paths (mount cv) = []" "currentPath (mount cv) = None"
  "captured_currentPath (panResponder (mount cv)) = None" "effects (mount cv) = []"
  "canvasRef (mount cv) = drawPaths [] None cv"
  by (simp_all add: mount_def useEffect_drawPaths_def mountRef_def PanResponder_create_def)

lemma rerender_fields:
  "paths (rerender m) = paths m" "currentPath (rerender m) = currentPath m"
  "panResponder (rerender m) = panResponder m" "effects (rerender m) = effects m"
  "canvasRef (rerender m) = drawPaths (paths m) (currentPath m) (canvasRef m)"
  by (simp_all add: rerender_def useEffect_drawPaths_def updateRef_def)

lemma rerender_visible_fields:
  "paths (rerender_visible cv m) = paths m" "currentPath (rerender_visible cv m) = currentPath m"
  "panResponder (rerender_visible cv m) = panResponder m"
  "effects (rerender_visible cv m) = effects m" "canvasRef (rerender_visible cv m) = cv"
  by (simp_all add: rerender_visible_def updateRef_def)


lemma saveDrawing_fields:
  "paths (saveDrawing h m) = paths m" "currentPath (saveDrawing h m) = currentPath m"
  "panResponder (saveDrawing h m) = panResponder m" "canvasRef (saveDrawing h m) = canvasRef m"
  by (simp_all add: saveDrawing_def catch_save_def Let_def split: option.splits)

text \<open>The pan responder held by the ref is never replaced.\<close>

lemma dispatch_keeps_panResponder:
  "dispatch h ev m = Inr m' \<Longrightarrow> panResponder m' = panResponder m"
  by (cases ev)
     (auto simp: rerender_fields rerender_visible_fields saveDrawing_fields
        onPanResponderGrant_def onPanResponderMove_def onPanResponderRelease_def
        clearCanvas_def split: option.splits sum.splits)

lemma run_keeps_panResponder:
  "run h evs m = Inr m' \<Longrightarrow> panResponder m' = panResponder m"
proof (induction evs arbitrary: m)
  case Nil
  then show ?case by simp
next
  case (Cons ev evs)
  then show ?case
    by (auto split: sum.splits dest: dispatch_keeps_panResponder)
qed

text \<open>
  Hence the handlers in use are those of the first render, whose \<^verbatim>\<open>currentPath\<close>
  is \<^verbatim>\<open>null\<close>, and the release handler finds nothing to commit.
\<close>

lemma run_captures_null:
  "run h evs (mount cv) = Inr m \<Longrightarrow> captured_currentPath (panResponder m) = None"
  by (simp add: run_keeps_panResponder mount_fields)

lemma release_with_null_closure:
  "captured_currentPath (panResponder m) = None \<Longrightarrow> dispatch h GestureEnd m = Inr m"
  by (simp add: onPanResponderRelease_def)

lemma release_after_mount:
  "run h evs (mount cv) = Inr m \<Longrightarrow> dispatch h GestureEnd m = Inr m"
  by (rule release_with_null_closure) (rule run_captures_null)

subsection \<open>The repaint in closed form\<close>

lemma forEach_index_lineTo:
  "forEach_index draw_point ps (Suc i) ctx =
     ctx\<lparr>subpath := subpath ctx @ map (\<lambda>q. LineTo (pt_x q) (pt_y q)) ps\<rparr>"
  by (induction ps arbitrary: i ctx) (simp_all add: draw_point_def lineTo_def)

lemma forEach_draw_point:
  "forEach draw_point ps ctx = ctx\<lparr>subpath := subpath ctx @ spec_polyline ps\<rparr>"
  by (cases ps) (simp_all add: forEach_def forEach_index_lineTo draw_point_def moveTo_def)

lemma draw_path_eq:
  "draw_path s ctx =
     ctx\<lparr>strokeStyle := color s, lineWidth := width s, lineCap := ''round'',
         lineJoin := ''round'', subpath := spec_polyline (points s),
         pixels := pixels ctx @ [spec_stroke_paint s]\<rparr>"
  by (simp add: draw_path_def Let_def beginPath_def forEach_draw_point stroke_ctx_def
      spec_stroke_paint_def)

lemma forEach_index_draw_path:
  "forEach_index (\<lambda>path index. draw_path path) ss i ctx = fold draw_path ss ctx"
  by (induction ss arbitrary: i ctx) simp_all

lemma fold_draw_path_snoc:
  "fold draw_path (ss @ [s]) ctx =
     ctx\<lparr>strokeStyle := color s, lineWidth := width s, lineCap := ''round'',
         lineJoin := ''round'', subpath := spec_polyline (points s),
         pixels := pixels ctx @ map spec_stroke_paint (ss @ [s])\<rparr>"
  by (induction ss arbitrary: ctx) (simp_all add: draw_path_eq)

lemma pixels_fold_draw_path:
  "pixels (fold draw_path ss ctx) = pixels ctx @ map spec_stroke_paint ss"
  by (induction ss arbitrary: ctx) (simp_all add: draw_path_eq)

lemma draw_on_fold:
  "draw_on pths cur c =
     fold draw_path (all_strokes pths cur)
       (c\<lparr>fillStyle := ''white'',
          pixels := [FillRect ''white'' 0 0 (cv_width c) (cv_height c)]\<rparr>)"
  by (simp add: draw_on_def Let_def fillRect_def covers_canvas_def opaque_color_def forEach_def
      forEach_index_draw_path all_strokes_def split: option.splits)

lemma pixels_draw_on:
  "pixels (draw_on pths cur c) = spec_repaint (cv_width c) (cv_height c) pths cur"
  by (simp add: draw_on_fold pixels_fold_draw_path spec_repaint_def all_strokes_def
      split: option.splits)

lemma dims_fold_draw_path:
  "cv_width (fold draw_path ss ctx) = cv_width ctx"
  "cv_height (fold draw_path ss ctx) = cv_height ctx"
  by (induction ss arbitrary: ctx) (simp_all add: draw_path_eq)

lemma dims_draw_on:
  "cv_width (draw_on pths cur c) = cv_width c" "cv_height (draw_on pths cur c) = cv_height c"
  by (simp_all add: draw_on_fold dims_fold_draw_path)

lemma draw_on_idem: "draw_on pths cur (draw_on pths cur c) = draw_on pths cur c"
proof (cases "all_strokes pths cur" rule: rev_cases)
  case Nil
  then show ?thesis by (simp add: draw_on_fold)
next
  case (snoc ss s)
  then show ?thesis by (simp add: draw_on_fold fold_draw_path_snoc del: fold_append)
qed

lemma surface_mount:
  "surface (mount (Some c)) = Some [FillRect ''white'' 0 0 (cv_width c) (cv_height c)]"
  by (simp add: surface_def mount_fields drawPaths_def pixels_draw_on spec_repaint_def)

subsection \<open>Event sequences\<close>

lemma dispatch_style_inv:
  "style_inv m \<Longrightarrow> dispatch h ev m = Inr m' \<Longrightarrow> style_inv m'"
  by (cases ev)
     (auto simp: style_inv_def fixed_style_def rerender_fields rerender_visible_fields
        saveDrawing_fields onPanResponderGrant_def onPanResponderMove_def
        onPanResponderRelease_def clearCanvas_def split: option.splits sum.splits)

lemma run_style_inv:
  "style_inv m \<Longrightarrow> run h evs m = Inr m' \<Longrightarrow> style_inv m'"
proof (induction evs arbitrary: m)
  case Nil
  then show ?case by simp
next
  case (Cons ev evs)
  then show ?case
    by (auto split: sum.splits dest: dispatch_style_inv)
qed

lemma mount_style_inv: "style_inv (mount cv)"
  by (simp add: style_inv_def mount_fields)

lemma move_keeps_style:
  "onPanResponderMove lx ly m = Inr m' \<Longrightarrow>
     paths m' = paths m \<and> map_option color (currentPath m') = map_option color (currentPath m) \<and>
     map_option width (currentPath m') = map_option width (currentPath m)"
  by (auto simp: onPanResponderMove_def split: option.splits)

text \<open>What one event does to the active stroke, whatever the closure of the handlers.\<close>

lemma dispatch_currentPath:
  "dispatch h ev m = Inr m' \<Longrightarrow>
     (case ev of
        GestureStart lx ly \<Rightarrow> currentPath m' \<noteq> None
      | GestureMove lx ly \<Rightarrow> currentPath m \<noteq> None \<and> currentPath m' \<noteq> None
      | GestureEnd \<Rightarrow> currentPath m' = currentPath m \<or> currentPath m' = None
      | PressClear \<Rightarrow> currentPath m' = None
      | _ \<Rightarrow> currentPath m' = currentPath m)"
  by (cases ev)
     (auto simp: rerender_fields rerender_visible_fields saveDrawing_fields
        onPanResponderGrant_def onPanResponderMove_def onPanResponderRelease_def
        clearCanvas_def split: option.splits sum.splits)

lemma dispatch_total:
  "(\<exists>m'. dispatch h ev m = Inr m') \<or>
   ((\<exists>lx ly. ev = GestureMove lx ly) \<and> currentPath m = None \<and> dispatch h ev m = Inl TypeError)"
  by (cases ev)
     (auto simp: onPanResponderMove_def onPanResponderRelease_def
        split: option.splits sum.splits)

text \<open>Inside a gesture there is an active stroke, so the moves of ordered events succeed.\<close>

lemma run_inside_gestures:
  "(g \<longrightarrow> currentPath m \<noteq> None) \<Longrightarrow> moves_inside_gestures g evs \<Longrightarrow>
   \<exists>m'. run h evs m = Inr m'"
proof (induction evs arbitrary: g m)
  case Nil
  then show ?case by simp
next
  case (Cons ev evs)
  from Cons.prems have "\<exists>m1. dispatch h ev m = Inr m1"
    using dispatch_total [of h ev m] by (cases ev) auto
  then obtain m1 where d: "dispatch h ev m = Inr m1" ..
  note c = dispatch_currentPath [OF d]
  show ?case
  proof (cases ev)
    case (GestureStart lx ly)
    with Cons.prems c Cons.IH [of True m1] d show ?thesis by simp
  next
    case (GestureMove lx ly)
    with Cons.prems c Cons.IH [of True m1] d show ?thesis by (cases g) simp_all
  next
    case GestureEnd
    with Cons.prems Cons.IH [of False m1] d show ?thesis by simp
  next
    case GestureCancel
    with Cons.prems Cons.IH [of False m1] d show ?thesis by simp
  next
    case PressClear
    with Cons.prems Cons.IH [of False m1] d show ?thesis by simp
  next
    case PressSave
    with Cons.prems c Cons.IH [of g m1] d show ?thesis by simp
  next
    case (Show cw ch)
    with Cons.prems c Cons.IH [of g m1] d show ?thesis by simp
  next
    case Hide
    with Cons.prems c Cons.IH [of g m1] d show ?thesis by simp
  qed
qed

text \<open>Without a gesture-start since the last clear there is no active stroke.\<close>

lemma run_move_without_start:
  "(\<not> st \<longrightarrow> currentPath m = None) \<Longrightarrow> move_without_start st evs \<Longrightarrow>
   run h evs m = Inl TypeError"
proof (induction evs arbitrary: st m)
  case Nil
  then show ?case by simp
next
  case (Cons ev evs)
  show ?case
  proof (cases "\<exists>m1. dispatch h ev m = Inr m1")
    case False
    with dispatch_total [of h ev m] show ?thesis by auto
  next
    case True
    then obtain m1 where d: "dispatch h ev m = Inr m1" ..
    note c = dispatch_currentPath [OF d]
    have step: "run h (ev # evs) m = run h evs m1"
      using d by simp
    show ?thesis
    proof (cases ev)
      case (GestureStart lx ly)
      with Cons.prems c
      have "\<not> True \<longrightarrow> currentPath m1 = None" and "move_without_start True evs"
        by auto
      then show ?thesis unfolding step by (rule Cons.IH)
    next
      case (GestureMove lx ly)
      with Cons.prems c have "st" by auto
      with GestureMove Cons.prems
      have "\<not> st \<longrightarrow> currentPath m1 = None" and "move_without_start st evs"
        by simp_all
      then show ?thesis unfolding step by (rule Cons.IH)
    next
      case GestureEnd
      with Cons.prems c
      have "\<not> st \<longrightarrow> currentPath m1 = None" and "move_without_start st evs"
        by auto
      then show ?thesis unfolding step by (rule Cons.IH)
    next
      case GestureCancel
      with Cons.prems c
      have "\<not> st \<longrightarrow> currentPath m1 = None" and "move_without_start st evs"
        by auto
      then show ?thesis unfolding step by (rule Cons.IH)
    next
      case PressClear
      with Cons.prems c
      have "\<not> False \<longrightarrow> currentPath m1 = None" and "move_without_start False evs"
        by auto
      then show ?thesis unfolding step by (rule Cons.IH)
    next
      case PressSave
      with Cons.prems c
      have "\<not> st \<longrightarrow> currentPath m1 = None" and "move_without_start st evs"
        by auto
      then show ?thesis unfolding step by (rule Cons.IH)
    next
      case (Show cw ch)
      with Cons.prems c
      have "\<not> st \<longrightarrow> currentPath m1 = None" and "move_without_start st evs"
        by auto
      then show ?thesis unfolding step by (rule Cons.IH)
    next
      case Hide
      with Cons.prems c
      have "\<not> st \<longrightarrow> currentPath m1 = None" and "move_without_start st evs"
        by auto
      then show ?thesis unfolding step by (rule Cons.IH)
    qed
  qed
qed

section \<open>The claims\<close>

text \<open>
  C1: a complete gesture (start, moves, end) is meant to append the active stroke to
  \<^verbatim>\<open>paths\<close> and reset \<^verbatim>\<open>currentPath\<close> to null. The release handler in use is the one
  of the first render, so it tests a \<^verbatim>\<open>currentPath\<close> that is null: after the gesture
  start (10,10), move (20,10), move (20,20), end on a newly mounted component,
  \<^verbatim>\<open>paths\<close> is still empty and \<^verbatim>\<open>currentPath\<close> still holds the three points.
\<close>

theorem gesture_end_commits_nothing:
  "drawing_of (run working_host
       [GestureStart 10 10, GestureMove 20 10, GestureMove 20 20, GestureEnd]
       (mount (Some (fresh_canvas 300 150)))) =
     Inr ([], Some \<lparr>points = [Point 10 10, Point 20 10, Point 20 20],
                    color = ''black'', width = 2\<rparr>)"
  by (simp add: drawing_of_def mount_fields rerender_fields onPanResponderGrant_def
      onPanResponderMove_def onPanResponderRelease_def)

text \<open>
  C2, as stated, fails: after start (5,5), move (8,8), cancel, the stroke set is empty and
  the stroke with the two points is still the active one.
\<close>

theorem cancel_commit_counterexample:
  "drawing_of (run working_host
       [GestureStart 5 5, GestureMove 8 8, GestureCancel]
       (mount (Some (fresh_canvas 300 150)))) =
     Inr ([], Some \<lparr>points = [Point 5 5, Point 8 8], color = ''black'', width = 2\<rparr>)"
  by (simp add: drawing_of_def mount_fields rerender_fields onPanResponderGrant_def
      onPanResponderMove_def)

text \<open>
  C2, amended: a gesture-cancel runs no handler. In every state it leaves the component
  exactly as it was, so the partially drawn stroke stays the active stroke and is not
  committed; after start (5,5), move (8,8), cancel, the stroke set is empty and the active
  stroke has exactly the 2 points.
\<close>

theorem gesture_cancel_unhandled:
  "dispatch h GestureCancel m = Inr m \<and>
   drawing_of (run h [GestureStart 5 5, GestureMove 8 8, GestureCancel] (mount cv)) =
     Inr ([], Some \<lparr>points = [Point 5 5, Point 8 8], color = ''black'', width = 2\<rparr>)"
  by (simp add: drawing_of_def mount_fields rerender_fields onPanResponderGrant_def
      onPanResponderMove_def)

text \<open>
  C3, as stated, fails when the surface is unavailable: the save then ends without any
  notification.
\<close>

theorem save_without_surface_counterexample:
  "canvasRef (mount None) = None \<and> effects (saveDrawing working_host (mount None)) = []"
  by (simp add: saveDrawing_def mount_fields drawPaths_def)

text \<open>
  C3, amended: whenever the platform encoder raises an error, the failure is logged and
  reported by the alert, neither callback is invoked, and the stroke set, the active stroke
  and the surface are unchanged; whenever the surface is unavailable, the save does nothing
  at all: no notification, no callback, and the state is unchanged.
\<close>

theorem save_failure_reported:
  "(canvasRef m = Some c \<and> toDataURL h c = None \<longrightarrow>
      saveDrawing h m =
        m\<lparr>effects := effects m @
           [ConsoleError ''Error saving drawing:'', Alert ''Error'' ''Could not save drawing'']\<rparr>) \<and>
   (canvasRef m = None \<longrightarrow> saveDrawing h m = m)"
  by (simp add: saveDrawing_def catch_save_def)

theorem save_failure_reported_witness:
  "effects (saveDrawing encoder_throws_host (mount (Some (fresh_canvas 300 150)))) =
     [ConsoleError ''Error saving drawing:'', Alert ''Error'' ''Could not save drawing''] \<and>
   saveDrawing encoder_throws_host (mount None) = mount None"
  using save_failure_reported [of "mount (Some (fresh_canvas 300 150))"
      "draw_on [] None (fresh_canvas 300 150)" encoder_throws_host]
    save_failure_reported [of "mount None" "fresh_canvas 300 150" encoder_throws_host]
  by (simp add: mount_fields drawPaths_def encoder_throws_host_def)

text \<open>
  C4, as stated, fails: the capture UI is mounted hidden and shown later, and the effect does
  not run when the canvas attaches, so the initial surface is the unpainted canvas; a clear
  at that state leaves the background fill on it, which is a different surface.
\<close>

theorem clear_initial_surface_counterexample:
  "surface_of (run working_host [Show 300 150] (mount None)) = Inr (Some []) \<and>
   surface_of (run working_host [Show 300 150, PressClear] (mount None)) =
     Inr (Some [FillRect ''white'' 0 0 300 150])"
  by (simp add: surface_of_def surface_def mount_fields drawPaths_def rerender_fields
      rerender_visible_fields clearCanvas_def pixels_draw_on spec_repaint_def fresh_canvas_def)

text \<open>
  C4, amended: in every state the clear button succeeds and empties the stroke set and the
  active stroke, and the repaint that follows leaves on the surface exactly the background
  fill of the whole canvas, as every repaint of an empty drawing on that canvas does.
\<close>

theorem clear_yields_blank:
  "drawing_of (dispatch h PressClear m) = Inr ([], None) \<and>
   (canvasRef m = Some c \<longrightarrow>
      surface_of (dispatch h PressClear m) =
        Inr (Some [FillRect ''white'' 0 0 (cv_width c) (cv_height c)]) \<and>
      surface_of (dispatch h PressClear m) =
        Inr (map_option pixels (drawPaths [] None (Some c))))"
  by (simp add: drawing_of_def surface_of_def surface_def rerender_fields clearCanvas_def
      drawPaths_def pixels_draw_on spec_repaint_def)

theorem clear_yields_blank_witness:
  "canvasRef (rerender (onPanResponderGrant 5 5 (mount (Some (fresh_canvas 300 150))))) =
     Some (draw_on [] (Some \<lparr>points = [Point 5 5], color = ''black'', width = 2\<rparr>)
            (draw_on [] None (fresh_canvas 300 150))) \<and>
   surface_of (dispatch working_host PressClear
       (rerender (onPanResponderGrant 5 5 (mount (Some (fresh_canvas 300 150)))))) =
     Inr (Some [FillRect ''white'' 0 0 300 150])"
proof -
  let ?m = "rerender (onPanResponderGrant 5 5 (mount (Some (fresh_canvas 300 150))))"
  let ?c = "draw_on [] (Some \<lparr>points = [Point 5 5], color = ''black'', width = 2\<rparr>)
              (draw_on [] None (fresh_canvas 300 150))"
  have c: "canvasRef ?m = Some ?c"
    by (simp add: rerender_fields onPanResponderGrant_def mount_fields drawPaths_def)
  have d: "cv_width ?c = 300" "cv_height ?c = 150"
    by (simp_all add: dims_draw_on fresh_canvas_def)
  from clear_yields_blank [of working_host ?m ?c] c d show ?thesis
    by simp
qed

text \<open>
  C5: for every stroke set and optional active stroke, the repaint leaves on the surface
  the background fill of the whole canvas, then one polyline per committed stroke in
  insertion order, then the polyline of the active stroke if there is one; each polyline
  moves to the stroke's first point and draws a segment to each subsequent point, in the
  stroke's colour and width with round caps and joins.
\<close>

theorem repaint_replays_in_order:
  "map_option pixels (drawPaths pths cur (Some c)) =
     Some (spec_repaint (cv_width c) (cv_height c) pths cur)"
  by (simp add: drawPaths_def pixels_draw_on)

text \<open>
  C6: the repaint is idempotent: run twice with the same stroke set and active stroke, it
  leaves the canvas (surface and context) as one run does.
\<close>

theorem repaint_idempotent:
  "drawPaths pths cur (drawPaths pths cur canvasRef_current) = drawPaths pths cur canvasRef_current \<and>
   useEffect_drawPaths (useEffect_drawPaths m) = useEffect_drawPaths m"
  by (simp add: drawPaths_def useEffect_drawPaths_def draw_on_idem split: option.splits)




text \<open>
  C8, as stated, fails: a gesture-start precedes the gesture-move, and yet the move reaches
  the TypeError, because the clear button has set the active stroke to null in between.
\<close>

theorem move_after_clear_counterexample:
  "run working_host [Show 300 150, GestureStart 5 5, PressClear, GestureMove 8 8] (mount None) =
     Inl TypeError"
  by (simp add: mount_fields drawPaths_def rerender_fields rerender_visible_fields
      onPanResponderGrant_def onPanResponderMove_def clearCanvas_def)

text \<open>
  C8, amended: the gesture-move handler dereferences the active stroke without a null
  check. Delivered while the active stroke is not null it succeeds and appends the point;
  delivered while it is null it ends in the TypeError. On a newly mounted component the
  error is unreachable when every gesture-move lies inside a gesture (after its
  gesture-start, with no gesture-end, gesture-cancel or clear in between), and it is reached
  when some gesture-move has no gesture-start before it since the mount or the last clear.
\<close>

theorem move_needs_active_stroke:
  "(currentPath m = Some s \<longrightarrow>
      onPanResponderMove lx ly m =
        Inr (m\<lparr>currentPath := Some (s\<lparr>points := points s @ [Point lx ly]\<rparr>)\<rparr>)) \<and>
   (currentPath m = None \<longrightarrow> onPanResponderMove lx ly m = Inl TypeError) \<and>
   (moves_inside_gestures False evs \<longrightarrow> (\<exists>m'. run h evs (mount cv) = Inr m')) \<and>
   (move_without_start False evs \<longrightarrow> run h evs (mount cv) = Inl TypeError)"
  using run_inside_gestures [of False "mount cv" evs h]
    run_move_without_start [of False "mount cv" evs h]
  by (simp add: onPanResponderMove_def mount_fields)

theorem move_needs_active_stroke_witness:
  "onPanResponderMove 8 8 (onPanResponderGrant 5 5 (mount None)) =
     Inr ((onPanResponderGrant 5 5 (mount None))
           \<lparr>currentPath := Some \<lparr>points = [Point 5 5, Point 8 8], color = ''black'', width = 2\<rparr>\<rparr>) \<and>
   onPanResponderMove 8 8 (mount None) = Inl TypeError \<and>
   (\<exists>m'. run working_host
      [Show 300 150, GestureStart 5 5, GestureMove 8 8, GestureEnd, PressClear,
       GestureStart 1 1, GestureMove 2 2, GestureCancel, PressSave] (mount None) = Inr m') \<and>
   run working_host [Show 300 150, GestureStart 5 5, GestureEnd, PressClear, GestureMove 8 8]
     (mount None) = Inl TypeError"
  using move_needs_active_stroke [where m = "onPanResponderGrant 5 5 (mount None)"
      and s = "\<lparr>points = [Point 5 5], color = ''black'', width = 2\<rparr>" and lx = 8 and ly = 8
      and evs = "[Show 300 150, GestureStart 5 5, GestureMove 8 8, GestureEnd, PressClear,
        GestureStart 1 1, GestureMove 2 2, GestureCancel, PressSave]"
      and h = working_host and cv = None]
    move_needs_active_stroke [where m = "mount None" and lx = 8 and ly = 8
      and evs = "[Show 300 150, GestureStart 5 5, GestureEnd, PressClear, GestureMove 8 8]"
      and h = working_host and cv = None]
  by (simp add: onPanResponderGrant_def mount_fields)

text \<open>
  C9: a save never touches the drawing state: whatever the encoder and the callbacks do,
  the stroke set and the active stroke after the save are the ones before it, and so are
  the canvas and the pan responder.
\<close>

theorem save_keeps_drawing:
  "drawing_of (dispatch h PressSave m) = Inr (paths m, currentPath m) \<and>
   canvasRef (saveDrawing h m) = canvasRef m \<and>
   panResponder (saveDrawing h m) = panResponder m"
  by (simp add: drawing_of_def saveDrawing_fields)

text \<open>
  C10: the stroke made by a gesture-start has colour black and width 2; a gesture-move
  keeps the colour and the width of the active stroke and leaves the stroke set alone;
  every event preserves the fixed style of all strokes held; hence after any sequence of
  events on a newly mounted component every stroke in the stroke set and the active stroke
  have colour black and width 2.
\<close>

theorem fixed_style_invariant:
  "pred_option fixed_style (currentPath (onPanResponderGrant lx ly m0)) \<and>
   (onPanResponderMove lx ly m0 = Inr m1 \<longrightarrow>
      paths m1 = paths m0 \<and>
      map_option color (currentPath m1) = map_option color (currentPath m0) \<and>
      map_option width (currentPath m1) = map_option width (currentPath m0)) \<and>
   (style_inv m0 \<and> dispatch h ev m0 = Inr m2 \<longrightarrow> style_inv m2) \<and>
   (run h evs (mount cv) = Inr m \<longrightarrow> style_inv m)"
proof -
  have "pred_option fixed_style (currentPath (onPanResponderGrant lx ly m0))"
    by (simp add: onPanResponderGrant_def fixed_style_def)
  moreover have "run h evs (mount cv) = Inr m \<longrightarrow> style_inv m"
    using run_style_inv [OF mount_style_inv] by blast
  ultimately show ?thesis
    using move_keeps_style [of lx ly m0 m1] dispatch_style_inv [of m0 h ev m2] by blast
qed

theorem fixed_style_invariant_witness:
  "onPanResponderMove 8 8 (onPanResponderGrant 5 5 (mount None)) =
     Inr ((onPanResponderGrant 5 5 (mount None))
           \<lparr>currentPath := Some \<lparr>points = [Point 5 5, Point 8 8], color = ''black'', width = 2\<rparr>\<rparr>) \<and>
   style_inv (mount None) \<and>
   dispatch working_host PressClear (mount None) = Inr (rerender (clearCanvas (mount None))) \<and>
   style_inv (rerender (clearCanvas (mount None))) \<and>
   run working_host [GestureStart 5 5] (mount None) =
     Inr (rerender (onPanResponderGrant 5 5 (mount None))) \<and>
   style_inv (rerender (onPanResponderGrant 5 5 (mount None)))"
  using fixed_style_invariant [where lx = 8 and ly = 8
      and ?m0.0 = "onPanResponderGrant 5 5 (mount None)"
      and ?m1.0 = "(onPanResponderGrant 5 5 (mount None))
           \<lparr>currentPath := Some \<lparr>points = [Point 5 5, Point 8 8], color = ''black'', width = 2\<rparr>\<rparr>"
      and h = working_host and evs = "[GestureStart 5 5]" and cv = None
      and m = "rerender (onPanResponderGrant 5 5 (mount None))"]
    fixed_style_invariant [where ?m0.0 = "mount None" and h = working_host and ev = PressClear
      and ?m2.0 = "rerender (clearCanvas (mount None))"]
  by (simp add: onPanResponderMove_def onPanResponderGrant_def mount_fields style_inv_def)

end
